theory Spec2Isabelle
  imports Main "HOL-Library.Sublist"
begin

text \<open>
  The attendance page of HISPE PULSE and its service worker. The first part embeds the
  code: the rendering of the four attendance cards from the record of the day and the
  submission of a scanned code (class \<^verbatim>\<open>MarcacionApp\<close>), and the caching strategies,
  the installation and the activation of the worker (\<^verbatim>\<open>static/sw.js\<close>). The second
  part states what holds of them.
\<close>

section \<open>JavaScript values\<close>

text \<open>
  The attendance record arrives as the parsed JSON body of \<^verbatim>\<open>/api/attendance/today\<close>, so
  the functions below work on JavaScript values. Numbers are kept as integers: the code
  only tests them for truthiness, where zero is the one falsy number a JSON text can
  denote.
\<close>

datatype jsval =
    JUndefined
  | JNull
  | JBool bool
  | JNum int
  | JStr string
  | JArr "jsval list"
  | JObj "(string \<times> jsval) list"

datatype error = TypeError | SyntaxError | FetchFailed | Error string

text \<open>The condition of a JavaScript \<^verbatim>\<open>if\<close>: what is not falsy is truthy.\<close>

fun truthy :: "jsval \<Rightarrow> bool" where
  "truthy JUndefined = False"
| "truthy JNull = False"
| "truthy (JBool b) = b"
| "truthy (JNum n) = (n \<noteq> 0)"
| "truthy (JStr s) = (s \<noteq> [])"
| "truthy (JArr xs) = True"
| "truthy (JObj kvs) = True"

definition nullish :: "jsval \<Rightarrow> bool" where
  "nullish v = (v = JUndefined \<or> v = JNull)"

text \<open>
  Reading a property \<^verbatim>\<open>v.p\<close>: a TypeError on \<^verbatim>\<open>null\<close> and \<^verbatim>\<open>undefined\<close>, the own
  property of an object, and \<^verbatim>\<open>undefined\<close> where there is none. The names read by the
  program (\<^verbatim>\<open>horaentrada\<close>, \<^verbatim>\<open>message\<close>, ...) are no built-in property of a string,
  number, boolean or array.
\<close>

definition field :: "jsval \<Rightarrow> string \<Rightarrow> jsval" where
  "field v p =
     (case v of
        JObj kvs \<Rightarrow> (case map_of kvs p of Some x \<Rightarrow> x | None \<Rightarrow> JUndefined)
      | _ \<Rightarrow> JUndefined)"


section \<open>The attendance cards (MarcacionApp)\<close>

text \<open>
  A card of the dashboard, as far as \<^verbatim>\<open>updateMarcationCards\<close> and
  \<^verbatim>\<open>reassignCardEvents\<close> touch it: \<^verbatim>\<open>dataset.type\<close>, the class list, the text of
  its \<^verbatim>\<open>.card-time\<close> and \<^verbatim>\<open>.card-status\<close> children, the colour of the status, and
  whether a click listener is attached. \<open>time_text\<close> holds the value assigned to
  \<^verbatim>\<open>textContent\<close>; the page shows its conversion to a string.
\<close>

record card =
  card_type :: string
  classes :: "string list"
  time_text :: jsval
  status_text :: string
  status_color :: string
  clickable :: bool

definition classList_remove :: "string list \<Rightarrow> string list \<Rightarrow> string list" where
  "classList_remove names cl = filter (\<lambda>c. c \<notin> set names) cl"

definition classList_add :: "string \<Rightarrow> string list \<Rightarrow> string list" where
  "classList_add name cl = (if name \<in> set cl then cl else cl @ [name])"

definition classList_contains :: "string \<Rightarrow> string list \<Rightarrow> bool" where
  "classList_contains name cl = (name \<in> set cl)"

text \<open>The check mark U+2705 of the status text, as its UTF-8 bytes.\<close>

definition check_mark :: string where
  "check_mark = [CHR 0xE2, CHR 0x9C, CHR 0x85]"

definition completed :: "jsval \<Rightarrow> card \<Rightarrow> card" where
  "completed t el =
     el\<lparr>classes := classList_add ''completed'' (classes el),
          time_text := t,
          status_text := check_mark @ '' Completado'',
          status_color := ''var(--color-success)''\<rparr>"

definition available :: "card \<Rightarrow> card" where
  "available el =
     el\<lparr>classes := classList_add ''available'' (classes el),
          time_text := JStr '''',
          status_text := ''Toca para marcar'',
          status_color := ''var(--text-muted)''\<rparr>"

definition disabled :: "string \<Rightarrow> card \<Rightarrow> card" where
  "disabled msg el =
     el\<lparr>classes := classList_add ''disabled'' (classes el),
          time_text := JStr '''',
          status_text := msg,
          status_color := ''var(--text-muted)''\<rparr>"

definition marcation_types :: "string list" where
  "marcation_types =
     [''Ingreso'', ''Inicio de Refrigerio'', ''Salida de Refrigerio'', ''Salida'']"

text \<open>
  The \<^verbatim>\<open>switch(type)\<close> of \<^verbatim>\<open>updateMarcationCards\<close>, for an attendance value whose
  properties can be read. A type that matches no \<^verbatim>\<open>case\<close> leaves the card as it is.
\<close>

definition switch_type :: "jsval \<Rightarrow> card \<Rightarrow> card" where
  "switch_type attendance el =
     (let horaentrada = field attendance ''horaentrada'';
          horaRefrigerioInicio = field attendance ''horaRefrigerioInicio'';
          horaRefrigerioFin = field attendance ''horaRefrigerioFin'';
          horasalida = field attendance ''horasalida''
      in
      if card_type el = ''Ingreso'' then
        (if truthy horaentrada then completed horaentrada el
         else available el)
      else if card_type el = ''Inicio de Refrigerio'' then
        (if truthy horaRefrigerioInicio then completed horaRefrigerioInicio el
         else if truthy horaentrada \<and> \<not> truthy horasalida then available el
         else disabled (if truthy horaentrada then ''No disponible''
                        else ''Requiere ingreso'') el)
      else if card_type el = ''Salida de Refrigerio'' then
        (if truthy horaRefrigerioFin then completed horaRefrigerioFin el
         else if truthy horaRefrigerioInicio \<and> \<not> truthy horasalida then available el
         else disabled (if \<not> truthy horaentrada then ''Requiere ingreso''
                        else if \<not> truthy horaRefrigerioInicio
                          then ''Requiere inicio refrigerio''
                        else ''No disponible'') el)
      else if card_type el = ''Salida'' then
        (if truthy horasalida then completed horasalida el
         else if truthy horaentrada \<and>
                 (\<not> truthy horaRefrigerioInicio \<or> truthy horaRefrigerioFin)
           then available el
         else disabled (if \<not> truthy horaentrada then ''Requiere ingreso''
                        else if truthy horaRefrigerioInicio \<and> \<not> truthy horaRefrigerioFin
                          then ''Termine refrigerio primero''
                        else ''No disponible'') el)
      else el)"

text \<open>
  The body of the \<^verbatim>\<open>forEach\<close> callback. The three state classes are removed first.
  Every \<^verbatim>\<open>case\<close> of the switch starts by reading a property of \<^verbatim>\<open>attendance\<close>, which
  throws a TypeError on \<^verbatim>\<open>null\<close> and \<^verbatim>\<open>undefined\<close>: the card is then left with its
  classes removed and the exception leaves the callback.
\<close>

definition updateCard :: "jsval \<Rightarrow> card \<Rightarrow> card \<times> error option" where
  "updateCard attendance el =
     (let el0 = el\<lparr>classes :=
            classList_remove [''available'', ''completed'', ''disabled''] (classes el)\<rparr>
      in
      if card_type el \<in> set marcation_types \<and> nullish attendance
      then (el0, Some TypeError)
      else (switch_type attendance el0, None))"

text \<open>\<^verbatim>\<open>cards.forEach\<close>: the first exception ends the loop, the cards after it are untouched.\<close>

fun forEach_update :: "jsval \<Rightarrow> card list \<Rightarrow> card list \<times> error option" where
  "forEach_update attendance [] = ([], None)"
| "forEach_update attendance (el # cards) =
     (case updateCard attendance el of
        (el', Some e) \<Rightarrow> (el' # cards, Some e)
      | (el', None) \<Rightarrow>
          (case forEach_update attendance cards of
             (cards', r) \<Rightarrow> (el' # cards', r)))"

text \<open>
  \<^verbatim>\<open>reassignCardEvents\<close> replaces every card by a clone, which carries no listener, and
  attaches the click listener to the clone when it has the class \<^verbatim>\<open>available\<close>. The
  cursor and hover styles it also sets are not part of the model.
\<close>

definition reassignCardEvents :: "card list \<Rightarrow> card list" where
  "reassignCardEvents cards =
     map (\<lambda>newCard. newCard\<lparr>clickable := classList_contains ''available'' (classes newCard)\<rparr>)
       cards"

definition updateMarcationCards :: "jsval \<Rightarrow> card list \<Rightarrow> card list \<times> error option" where
  "updateMarcationCards attendance cards =
     (case forEach_update attendance cards of
        (cards', Some e) \<Rightarrow> (cards', Some e)
      | (cards', None) \<Rightarrow> (reassignCardEvents cards', None))"

subsection \<open>Reading the eligibility off a rendered card\<close>

text \<open>
  The eligibility of a punch type is what its card shows: the class says completed,
  available or blocked, a completed card carries the stored time and a blocked card
  the reason, which the code gives as the status text.
\<close>

datatype eligibility = Completed jsval | Available | Blocked string | Unrendered

definition eligibility_of :: "card \<Rightarrow> eligibility" where
  "eligibility_of el =
     (if classList_contains ''completed'' (classes el) then Completed (time_text el)
      else if classList_contains ''available'' (classes el) then Available
      else if classList_contains ''disabled'' (classes el) then Blocked (status_text el)
      else Unrendered)"

text \<open>A card that carries none of the three state classes.\<close>

definition cleared :: "card \<Rightarrow> bool" where
  "cleared el =
     (''completed'' \<notin> set (classes el) \<and> ''available'' \<notin> set (classes el) \<and>
      ''disabled'' \<notin> set (classes el))"

text \<open>The reasons of a blocked card are the status texts of the code.\<close>

definition NoEntry :: string where
  "NoEntry = ''Requiere ingreso''"

definition NoBreakStart :: string where
  "NoBreakStart = ''Requiere inicio refrigerio''"

definition BreakInProgress :: string where
  "BreakInProgress = ''Termine refrigerio primero''"

definition Unavailable :: string where
  "Unavailable = ''No disponible''"

datatype punch = Entry | BreakStart | BreakEnd | Exit

fun type_name :: "punch \<Rightarrow> string" where
  "type_name Entry = ''Ingreso''"
| "type_name BreakStart = ''Inicio de Refrigerio''"
| "type_name BreakEnd = ''Salida de Refrigerio''"
| "type_name Exit = ''Salida''"

text \<open>The four fields of the record, by the names the server gives them.\<close>

definition entryTime :: "jsval \<Rightarrow> jsval" where
  "entryTime attendance = field attendance ''horaentrada''"

definition breakStartTime :: "jsval \<Rightarrow> jsval" where
  "breakStartTime attendance = field attendance ''horaRefrigerioInicio''"

definition breakEndTime :: "jsval \<Rightarrow> jsval" where
  "breakEndTime attendance = field attendance ''horaRefrigerioFin''"

definition exitTime :: "jsval \<Rightarrow> jsval" where
  "exitTime attendance = field attendance ''horasalida''"

text \<open>
  The evaluation of one punch type: the card of that type, before any rendering, is
  passed through the callback and its eligibility is read off; the exception of the
  callback is the error.
\<close>

definition blank_card :: "string \<Rightarrow> card" where
  "blank_card t =
     \<lparr>card_type = t, classes = [''marcation-card''], time_text = JStr '''',
      status_text = '''', status_color = '''', clickable = False\<rparr>"

definition evaluate :: "jsval \<Rightarrow> punch \<Rightarrow> error + eligibility" where
  "evaluate attendance t =
     (case updateCard attendance (blank_card (type_name t)) of
        (el', Some e) \<Rightarrow> Inl e
      | (el', None) \<Rightarrow> Inr (eligibility_of el'))"

section \<open>The service worker (sw.js)\<close>

subsection \<open>Requests, responses and the cache storage\<close>

text \<open>
  A URL is kept as the two parts the worker looks at. A body is either the text of a JSON
  value (\<open>Json v\<close> stands for \<^verbatim>\<open>JSON.stringify(v)\<close>) or a text that is not JSON.
  \<open>headers\<close> of a response built by the worker holds the headers its code passes.
\<close>

record url =
  origin :: string
  pathname :: string

datatype body = Json jsval | Text string

record response =
  status :: nat
  headers :: "(string \<times> string) list"
  body :: body

definition ok :: "response \<Rightarrow> bool" where
  "ok r = (200 \<le> status r \<and> status r \<le> 299)"

fun json_of :: "body \<Rightarrow> error + jsval" where
  "json_of (Json v) = Inr v"
| "json_of (Text s) = Inl SyntaxError"

text \<open>
  The request of a fetch event; \<open>http_method\<close> is its \<^verbatim>\<open>method\<close> and
  \<open>request_body\<close> its body, \<open>None\<close> for a request that has none.
\<close>

record request =
  http_method :: string
  url :: url
  mode :: string
  accept :: "string option"
  request_body :: "body option"

text \<open>
  \<^verbatim>\<open>fetch(request)\<close> takes the body of the request it is given: once it was called,
  whatever its outcome, a request that had a body is used (\<^verbatim>\<open>bodyUsed\<close>), and
  \<^verbatim>\<open>request.clone()\<close> throws a TypeError on a used request. \<^verbatim>\<open>json()\<close> parses the
  text of the body; the empty text of a request without a body is not JSON.
\<close>

definition bodyUsed_after_fetch :: "request \<Rightarrow> bool" where
  "bodyUsed_after_fetch request = (request_body request \<noteq> None)"

definition clone_after_fetch :: "request \<Rightarrow> error + request" where
  "clone_after_fetch request =
     (if bodyUsed_after_fetch request then Inl TypeError else Inr request)"

definition request_json :: "request \<Rightarrow> error + jsval" where
  "request_json request =
     (case request_body request of
        None \<Rightarrow> Inl SyntaxError
      | Some b \<Rightarrow> json_of b)"

text \<open>
  The cache storage: the named caches in the order of their creation, each a list of
  entries keyed by the URL of the request. \<^verbatim>\<open>caches.match\<close> returns the entry of the
  first cache that has one. The conditions the platform puts on \<^verbatim>\<open>cache.put\<close> and
  \<^verbatim>\<open>match\<close> beyond the URL (the method, the \<^verbatim>\<open>Vary\<close> header, partial responses) are
  not modelled, and a \<^verbatim>\<open>put\<close> that the code does not await is taken as done.
\<close>

type_synonym cache = "(url \<times> response) list"

type_synonym cache_storage = "(string \<times> cache) list"

fun cache_put :: "url \<Rightarrow> response \<Rightarrow> cache \<Rightarrow> cache" where
  "cache_put k r [] = [(k, r)]"
| "cache_put k r ((k', r') # c) =
     (if k' = k then (k, r) # c else (k', r') # cache_put k r c)"

definition caches_open :: "string \<Rightarrow> cache_storage \<Rightarrow> cache_storage" where
  "caches_open name caches =
     (if name \<in> set (map fst caches) then caches else caches @ [(name, [])])"

fun on_cache :: "string \<Rightarrow> (cache \<Rightarrow> cache) \<Rightarrow> cache_storage \<Rightarrow> cache_storage" where
  "on_cache name f [] = []"
| "on_cache name f ((n, c) # caches) =
     (if n = name then (n, f c) # caches else (n, c) # on_cache name f caches)"

text \<open>\<^verbatim>\<open>caches.open(name).then(cache => cache.put(k, r))\<close>\<close>

definition storage_put :: "string \<Rightarrow> url \<Rightarrow> response \<Rightarrow> cache_storage \<Rightarrow> cache_storage" where
  "storage_put name k r caches = on_cache name (cache_put k r) (caches_open name caches)"

fun caches_match :: "cache_storage \<Rightarrow> url \<Rightarrow> response option" where
  "caches_match [] k = None"
| "caches_match ((n, c) # caches) k =
     (case map_of c k of
        Some r \<Rightarrow> Some r
      | None \<Rightarrow> caches_match caches k)"

definition caches_delete :: "string \<Rightarrow> cache_storage \<Rightarrow> cache_storage" where
  "caches_delete name caches = filter (\<lambda>(n, c). n \<noteq> name) caches"

definition CACHE_NAME :: string where
  "CACHE_NAME = ''hispe-pulse-v1.0.0''"

definition OFFLINE_CACHE :: string where
  "OFFLINE_CACHE = ''hispe-offline-v1.0''"

definition ESSENTIAL_FILES :: "string list" where
  "ESSENTIAL_FILES =
     [''/'',
      ''/dashboard'',
      ''/static/css/style.css'',
      ''/static/js/app.js'',
      ''/manifest.json'',
      ''https://unpkg.com/html5-qrcode/minified/html5-qrcode.min.js'']"

definition API_CACHE_PATTERNS :: "string list" where
  "API_CACHE_PATTERNS = [''/api/user'', ''/api/attendance/today'', ''/api/health'']"

text \<open>
  A URL string of the worker resolved against its own origin: an absolute
  \<^verbatim>\<open>https://\<close> URL is cut at the first slash after the host, a path stays on the origin.
\<close>

definition resolve_url :: "string \<Rightarrow> string \<Rightarrow> url" where
  "resolve_url location_origin s =
     (if prefix ''https://'' s then
        (let rest = drop 8 s
         in \<lparr>origin = ''https://'' @ takeWhile (\<lambda>ch. ch \<noteq> CHR ''/'') rest,
             pathname = dropWhile (\<lambda>ch. ch \<noteq> CHR ''/'') rest\<rparr>)
      else \<lparr>origin = location_origin, pathname = s\<rparr>)"

definition essential_urls :: "string \<Rightarrow> url list" where
  "essential_urls location_origin = map (resolve_url location_origin) ESSENTIAL_FILES"

definition getOfflineHTML :: string where
  "getOfflineHTML =
     [CHR 0x0A] @ ''    <!DOCTYPE html>'' @ [CHR 0x0A] @
     ''    <html lang='' @ [CHR 0x22] @ ''es'' @ [CHR 0x22] @ ''>'' @
     [CHR 0x0A] @ ''    <head>'' @ [CHR 0x0A] @ ''        <meta charset='' @
     [CHR 0x22] @ ''UTF-8'' @ [CHR 0x22] @ ''>'' @ [CHR 0x0A] @
     ''        <meta name='' @ [CHR 0x22] @ ''viewport'' @ [CHR 0x22] @
     '' content='' @ [CHR 0x22] @
     ''width=device-width, initial-scale=1.0'' @ [CHR 0x22] @ ''>'' @
     [CHR 0x0A] @ ''        <title>Sin Conexi'' @ [CHR 0xC3, CHR 0xB3] @
     ''n - HISPE PULSE</title>'' @ [CHR 0x0A] @ ''        <style>'' @
     [CHR 0x0A] @ ''            body {'' @ [CHR 0x0A] @
     ''                font-family: '' @ [CHR 0x27] @ ''Segoe UI'' @
     [CHR 0x27] @ '', system-ui, sans-serif;'' @ [CHR 0x0A] @
     ''                background: linear-gradient(135deg, #2c3e50 '' @
     ''0%, #34495e 100%);'' @ [CHR 0x0A] @
     ''                color: white;'' @ [CHR 0x0A] @
     ''                margin: 0;'' @ [CHR 0x0A] @
     ''                padding: 20px;'' @ [CHR 0x0A] @
     ''                min-height: 100vh;'' @ [CHR 0x0A] @
     ''                display: flex;'' @ [CHR 0x0A] @
     ''                align-items: center;'' @ [CHR 0x0A] @
     ''                justify-content: center;'' @ [CHR 0x0A] @
     ''                text-align: center;'' @ [CHR 0x0A] @
     ''            }'' @ [CHR 0x0A] @ ''            .offline-container {'' @
     [CHR 0x0A] @
     ''                background: rgba(255, 255, 255, 0.1);'' @
     [CHR 0x0A] @ ''                padding: 40px;'' @ [CHR 0x0A] @
     ''                border-radius: 20px;'' @ [CHR 0x0A] @
     ''                backdrop-filter: blur(20px);'' @ [CHR 0x0A] @
     ''                border: 1px solid rgba(255, 255, 255, 0.2);'' @
     [CHR 0x0A] @ ''                max-width: 400px;'' @ [CHR 0x0A] @
     ''            }'' @ [CHR 0x0A] @ ''            .offline-icon {'' @
     [CHR 0x0A] @ ''                font-size: 60px;'' @ [CHR 0x0A] @
     ''                margin-bottom: 20px;'' @ [CHR 0x0A] @
     ''            }'' @ [CHR 0x0A] @ ''            h1 {'' @ [CHR 0x0A] @
     ''                margin-bottom: 15px;'' @ [CHR 0x0A] @
     ''                font-size: 24px;'' @ [CHR 0x0A] @ ''            }'' @
     [CHR 0x0A] @ ''            p {'' @ [CHR 0x0A] @
     ''                margin-bottom: 20px;'' @ [CHR 0x0A] @
     ''                opacity: 0.9;'' @ [CHR 0x0A] @
     ''                line-height: 1.6;'' @ [CHR 0x0A] @
     ''            }'' @ [CHR 0x0A] @ ''            .retry-btn {'' @
     [CHR 0x0A] @
     ''                background: linear-gradient(45deg, #3498db, '' @
     ''#2980b9);'' @ [CHR 0x0A] @ ''                border: none;'' @
     [CHR 0x0A] @ ''                padding: 12px 25px;'' @ [CHR 0x0A] @
     ''                border-radius: 25px;'' @ [CHR 0x0A] @
     ''                color: white;'' @ [CHR 0x0A] @
     ''                font-weight: bold;'' @ [CHR 0x0A] @
     ''                cursor: pointer;'' @ [CHR 0x0A] @
     ''                transition: transform 0.2s;'' @ [CHR 0x0A] @
     ''            }'' @ [CHR 0x0A] @ ''            .retry-btn:hover {'' @
     [CHR 0x0A] @ ''                transform: translateY(-2px);'' @
     [CHR 0x0A] @ ''            }'' @ [CHR 0x0A] @ ''        </style>'' @
     [CHR 0x0A] @ ''    </head>'' @ [CHR 0x0A] @ ''    <body>'' @
     [CHR 0x0A] @ ''        <div class='' @ [CHR 0x22] @
     ''offline-container'' @ [CHR 0x22] @ ''>'' @ [CHR 0x0A] @
     ''            <div class='' @ [CHR 0x22] @ ''offline-icon'' @
     [CHR 0x22] @ ''>'' @ [CHR 0xF0, CHR 0x9F, CHR 0x93, CHR 0xB1] @
     ''</div>'' @ [CHR 0x0A] @ ''            <h1>Sin Conexi'' @
     [CHR 0xC3, CHR 0xB3] @ ''n</h1>'' @ [CHR 0x0A] @
     ''            <p>No hay conexi'' @ [CHR 0xC3, CHR 0xB3] @
     ''n a internet. Algunas funciones de HISPE PULSE no est'' @
     [CHR 0xC3, CHR 0xA1] @ ''n disponibles.</p>'' @ [CHR 0x0A] @
     ''            <p>Las marcaciones se guardar'' @ [CHR 0xC3, CHR 0xA1] @
     ''n autom'' @ [CHR 0xC3, CHR 0xA1] @
     ''ticamente cuando se restablezca la conexi'' @ [CHR 0xC3, CHR 0xB3] @
     ''n.</p>'' @ [CHR 0x0A] @ ''            <button class='' @ [CHR 0x22] @
     ''retry-btn'' @ [CHR 0x22] @ '' onclick='' @ [CHR 0x22] @
     ''window.location.reload()'' @ [CHR 0x22] @ ''>'' @ [CHR 0x0A] @
     ''                '' @ [CHR 0xF0, CHR 0x9F, CHR 0x94, CHR 0x84] @
     '' Intentar de Nuevo'' @ [CHR 0x0A] @ ''            </button>'' @
     [CHR 0x0A] @ ''        </div>'' @ [CHR 0x0A] @ ''    </body>'' @
     [CHR 0x0A] @ ''    </html>''"

definition offline_page :: response where
  "offline_page =
     \<lparr>status = 200, headers = [(''Content-Type'', ''text/html'')],
      body = Text getOfflineHTML\<rparr>"

subsection \<open>Installation and activation\<close>

text \<open>
  \<^verbatim>\<open>cache.addAll\<close> fetches every URL and stores the responses only when every one of
  them arrived with an ok status; otherwise it rejects and stores nothing.
\<close>

fun fetch_all :: "(url \<Rightarrow> error + response) \<Rightarrow> url list \<Rightarrow> error + (url \<times> response) list" where
  "fetch_all fetch_url [] = Inr []"
| "fetch_all fetch_url (u # us) =
     (case fetch_url u of
        Inl e \<Rightarrow> Inl TypeError
      | Inr r \<Rightarrow>
          if ok r then
            (case fetch_all fetch_url us of
               Inl e \<Rightarrow> Inl e
             | Inr rs \<Rightarrow> Inr ((u, r) # rs))
          else Inl TypeError)"

definition put_all :: "(url \<times> response) list \<Rightarrow> cache \<Rightarrow> cache" where
  "put_all rs c = fold (\<lambda>(u, r). cache_put u r) rs c"

text \<open>
  The install listener: the two branches of its \<^verbatim>\<open>Promise.all\<close> work on different
  caches. The second component is the rejection of \<^verbatim>\<open>event.waitUntil\<close>, with which the
  installation fails.
\<close>

definition install ::
  "string \<Rightarrow> (url \<Rightarrow> error + response) \<Rightarrow> cache_storage \<Rightarrow> cache_storage \<times> error option" where
  "install location_origin fetch_url caches =
     (let caches1 = caches_open CACHE_NAME caches;
          essential = fetch_all fetch_url (essential_urls location_origin);
          caches2 = (case essential of
                       Inl e \<Rightarrow> caches1
                     | Inr rs \<Rightarrow> on_cache CACHE_NAME (put_all rs) caches1);
          caches3 = storage_put OFFLINE_CACHE (resolve_url location_origin ''/offline'')
                      offline_page caches2
      in (caches3, case essential of Inl e \<Rightarrow> Some e | Inr rs \<Rightarrow> None))"

text \<open>The activate listener deletes every cache that has neither of the two current names.\<close>

definition activate :: "cache_storage \<Rightarrow> cache_storage" where
  "activate caches =
     fold (\<lambda>cacheName cs.
             if cacheName \<noteq> CACHE_NAME \<and> cacheName \<noteq> OFFLINE_CACHE
             then caches_delete cacheName cs else cs)
       (map fst caches) caches"

subsection \<open>The strategies\<close>

text \<open>
  What the promise of a handler settles to. The network is the parameter \<open>fetch\<close>: the
  outcome of \<^verbatim>\<open>fetch(request)\<close>, \<open>Inl\<close> when it rejects. A handler returns the settled
  promise and the cache storage it leaves.
\<close>

datatype settled = Resolved response | ResolvedUndefined | Rejected error

definition cacheFirst ::
  "(request \<Rightarrow> error + response) \<Rightarrow> cache_storage \<Rightarrow> request \<Rightarrow> settled \<times> cache_storage" where
  "cacheFirst fetch caches request =
     (case caches_match caches (url request) of
        Some cachedResponse \<Rightarrow> (Resolved cachedResponse, caches)
      | None \<Rightarrow>
          (case fetch request of
             Inl e \<Rightarrow>
               (Resolved \<lparr>status = 503, headers = [],
                          body = Text ''Recurso no disponible offline''\<rparr>, caches)
           | Inr networkResponse \<Rightarrow>
               (Resolved networkResponse,
                if ok networkResponse
                then storage_put CACHE_NAME (url request) networkResponse caches
                else caches)))"

definition networkFirstWithCacheFallback ::
  "string \<Rightarrow> (request \<Rightarrow> error + response) \<Rightarrow> cache_storage \<Rightarrow> request \<Rightarrow>
   settled \<times> cache_storage" where
  "networkFirstWithCacheFallback location_origin fetch caches request =
     (let fallback =
            (case caches_match caches (url request) of
               Some cachedResponse \<Rightarrow> (Resolved cachedResponse, caches)
             | None \<Rightarrow>
                 (case caches_match caches (resolve_url location_origin ''/offline'') of
                    Some page \<Rightarrow> (Resolved page, caches)
                  | None \<Rightarrow> (ResolvedUndefined, caches)))
      in case fetch request of
           Inl e \<Rightarrow> fallback
         | Inr networkResponse \<Rightarrow>
             if ok networkResponse
             then (Resolved networkResponse,
                   storage_put CACHE_NAME (url request) networkResponse caches)
             else fallback)"

text \<open>
  The refresh in the background of \<^verbatim>\<open>cacheFirstWithNetworkFallback\<close> is not awaited; the
  storage returned is the one it leaves once it is through.
\<close>

definition cacheFirstWithNetworkFallback ::
  "(request \<Rightarrow> error + response) \<Rightarrow> cache_storage \<Rightarrow> request \<Rightarrow> settled \<times> cache_storage" where
  "cacheFirstWithNetworkFallback fetch caches request =
     (case caches_match caches (url request) of
        Some cachedResponse \<Rightarrow>
          (Resolved cachedResponse,
           case fetch request of
             Inl e \<Rightarrow> caches
           | Inr response \<Rightarrow>
               if ok response then storage_put CACHE_NAME (url request) response caches
               else caches)
      | None \<Rightarrow>
          (case fetch request of
             Inl e \<Rightarrow>
               (Resolved \<lparr>status = 503,
                          headers = [(''Content-Type'', ''application/json'')],
                          body = Json (JObj [(''error'',
                            JStr ''Funcionalidad no disponible offline'')])\<rparr>, caches)
           | Inr networkResponse \<Rightarrow>
               (Resolved networkResponse,
                if ok networkResponse
                then storage_put CACHE_NAME (url request) networkResponse caches
                else caches)))"

definition networkOnlyWithFallback ::
  "(request \<Rightarrow> error + response) \<Rightarrow> cache_storage \<Rightarrow> request \<Rightarrow> settled \<times> cache_storage" where
  "networkOnlyWithFallback fetch caches request =
     (case fetch request of
        Inr response \<Rightarrow> (Resolved response, caches)
      | Inl e \<Rightarrow>
          (Resolved \<lparr>status = 503,
                     headers = [(''Content-Type'', ''application/json'')],
                     body = Json (JObj
                       [(''error'', JStr (''Sin conexi'' @ [CHR 0xC3, CHR 0xB3] @
                        ''n. La marcaci'' @ [CHR 0xC3, CHR 0xB3] @
                        ''n no se puede procesar offline.'')),
                        (''offline'', JBool True)])\<rparr>, caches))"

text \<open>
  \<^verbatim>\<open>handleOfflineMarking\<close>: a response that is not ok throws inside the \<^verbatim>\<open>try\<close>, so it
  reaches the same \<^verbatim>\<open>catch\<close> block as a rejected fetch. The block clones the request,
  after \<^verbatim>\<open>fetch(request)\<close> was called on it, and awaits \<^verbatim>\<open>json()\<close> of the clone
  before it builds its answer; it has no handler of its own, so an exception there
  rejects the promise of the handler.
\<close>

definition pending_json :: jsval where
  "pending_json =
     JObj
       [(''success'', JBool True),
        (''message'', JStr ([CHR 0xF0, CHR 0x9F, CHR 0x93, CHR 0xB1] @ '' Marcaci'' @
           [CHR 0xC3, CHR 0xB3] @ ''n guardada. Se enviar'' @
           [CHR 0xC3, CHR 0xA1] @ '' cuando haya conexi'' @
           [CHR 0xC3, CHR 0xB3] @ ''n.'')),
        (''offline'', JBool True),
        (''pending'', JBool True)]"

definition pending_response :: response where
  "pending_response =
     \<lparr>status = 202,
      headers = [(''Content-Type'', ''application/json'')],
      body = Json pending_json\<rparr>"

definition handleOfflineMarking ::
  "(request \<Rightarrow> error + response) \<Rightarrow> cache_storage \<Rightarrow> request \<Rightarrow> settled \<times> cache_storage" where
  "handleOfflineMarking fetch caches request =
     (let catch_block =
            (case clone_after_fetch request of
               Inl e \<Rightarrow> (Rejected e, caches)
             | Inr requestClone \<Rightarrow>
                 (case request_json requestClone of
                    Inl e \<Rightarrow> (Rejected e, caches)
                  | Inr parsed \<Rightarrow> (Resolved pending_response, caches)))
      in case fetch request of
           Inl e \<Rightarrow> catch_block
         | Inr response \<Rightarrow>
             if ok response then (Resolved response, caches)
             else catch_block)"

subsection \<open>The fetch listener\<close>

text \<open>
  \<^verbatim>\<open>request.headers.get('accept')\<close> is \<^verbatim>\<open>null\<close> for a request without that header,
  and \<^verbatim>\<open>includes\<close> on it throws.
\<close>

definition isNavigationRequest :: "request \<Rightarrow> error + bool" where
  "isNavigationRequest request =
     (if mode request = ''navigate'' then Inr True
      else if http_method request = ''GET'' then
        (case accept request of
           None \<Rightarrow> Inl TypeError
         | Some a \<Rightarrow> Inr (sublist ''text/html'' a))
      else Inr False)"

datatype strategy =
    NetworkOnlyWithFallback
  | CacheFirstWithNetworkFallback
  | NetworkFirstWithCacheFallback
  | CacheFirst
  | HandleOfflineMarking

text \<open>
  What the listener does with an event: it returns without \<^verbatim>\<open>respondWith\<close>, it calls
  \<^verbatim>\<open>respondWith\<close> with one of the handlers, or it throws.
\<close>

datatype dispatch = NotHandled | RespondWith strategy | ListenerThrew error

definition fetch_listener :: "string \<Rightarrow> request \<Rightarrow> dispatch" where
  "fetch_listener location_origin request =
     (if origin (url request) \<noteq> location_origin then NotHandled
      else if http_method request = ''GET'' then
        (if prefix ''/api/attendance/mark'' (pathname (url request))
           then RespondWith NetworkOnlyWithFallback
         else if \<exists>pattern \<in> set API_CACHE_PATTERNS. prefix pattern (pathname (url request))
           then RespondWith CacheFirstWithNetworkFallback
         else
           (case isNavigationRequest request of
              Inl e \<Rightarrow> ListenerThrew e
            | Inr navigation \<Rightarrow>
                if navigation then RespondWith NetworkFirstWithCacheFallback
                else RespondWith CacheFirst))
      else if http_method request = ''POST'' \<and>
              prefix ''/api/attendance/mark'' (pathname (url request))
        then RespondWith HandleOfflineMarking
      else NotHandled)"

fun run_strategy ::
  "strategy \<Rightarrow> string \<Rightarrow> (request \<Rightarrow> error + response) \<Rightarrow> cache_storage \<Rightarrow> request \<Rightarrow>
   settled \<times> cache_storage" where
  "run_strategy NetworkOnlyWithFallback loc fetch caches request =
     networkOnlyWithFallback fetch caches request"
| "run_strategy CacheFirstWithNetworkFallback loc fetch caches request =
     cacheFirstWithNetworkFallback fetch caches request"
| "run_strategy NetworkFirstWithCacheFallback loc fetch caches request =
     networkFirstWithCacheFallback loc fetch caches request"
| "run_strategy CacheFirst loc fetch caches request =
     cacheFirst fetch caches request"
| "run_strategy HandleOfflineMarking loc fetch caches request =
     handleOfflineMarking fetch caches request"

text \<open>
  What the caller of the request gets, and the storage afterwards. Without
  \<^verbatim>\<open>respondWith\<close> the browser sends the request to the network itself; a promise given
  to \<^verbatim>\<open>respondWith\<close> that rejects, or resolves to no response, is a network error for
  the caller.
\<close>

definition router ::
  "string \<Rightarrow> (request \<Rightarrow> error + response) \<Rightarrow> cache_storage \<Rightarrow> request \<Rightarrow>
   (error + response) \<times> cache_storage" where
  "router location_origin fetch caches request =
     (case fetch_listener location_origin request of
        NotHandled \<Rightarrow> (fetch request, caches)
      | ListenerThrew e \<Rightarrow> (fetch request, caches)
      | RespondWith s \<Rightarrow>
          (case run_strategy s location_origin fetch caches request of
             (Resolved r, caches') \<Rightarrow> (Inr r, caches')
           | (ResolvedUndefined, caches') \<Rightarrow> (Inl TypeError, caches')
           | (Rejected e, caches') \<Rightarrow> (Inl TypeError, caches')))"

section \<open>The submission flow (MarcacionApp)\<close>

text \<open>
  The state of \<^verbatim>\<open>MarcacionApp\<close> that the submission reads and writes, with the cards of
  the page. What the application does to the outside is a list of events: the requests
  it sends with \<^verbatim>\<open>fetch\<close> and the messages it shows. The camera, the loading overlay
  and the animations are not part of the model.
\<close>

record app =
  currentMarcationType :: "string option"
  isProcessing :: bool
  connectionStatus :: bool
  cards :: "card list"






section \<open>Concrete inputs\<close>

text \<open>The requests, responses, networks and states at which the results below are evaluated.\<close>

definition example_origin :: string where
  "example_origin = ''https://marcaciones.example''"

definition offline_network :: "request \<Rightarrow> error + response" where
  "offline_network = (\<lambda>request. Inl FetchFailed)"

definition mark_post :: request where
  "mark_post =
     \<lparr>http_method = ''POST'',
      url = \<lparr>origin = example_origin, pathname = ''/api/attendance/mark''\<rparr>,
      mode = ''cors'',
      accept = Some ''*/*'',
      request_body = Some (Json (JObj [(''qrCode'', JStr ''QR-1''),
                                       (''marcationType'', JStr ''Ingreso'')]))\<rparr>"

definition bad_json_post :: request where
  "bad_json_post = mark_post\<lparr>request_body := Some (Text ''qrCode=QR-1'')\<rparr>"

definition server_rejection :: response where
  "server_rejection =
     \<lparr>status = 400,
      headers = [(''Content-Type'', ''application/json'')],
      body = Json (JObj [(''error'', JStr ''QR no valido'')])\<rparr>"

definition rejecting_server :: "request \<Rightarrow> error + response" where
  "rejecting_server = (\<lambda>request. Inr server_rejection)"

definition style_request :: request where
  "style_request =
     \<lparr>http_method = ''GET'',
      url = \<lparr>origin = example_origin, pathname = ''/static/css/style.css''\<rparr>,
      mode = ''no-cors'',
      accept = Some ''text/css,*/*;q=0.1'',
      request_body = None\<rparr>"

definition script_request :: request where
  "script_request =
     \<lparr>http_method = ''GET'',
      url = \<lparr>origin = example_origin, pathname = ''/static/js/app.js''\<rparr>,
      mode = ''no-cors'',
      accept = Some ''*/*'',
      request_body = None\<rparr>"

definition stored_style :: response where
  "stored_style =
     \<lparr>status = 200, headers = [(''Content-Type'', ''text/css'')],
      body = Text ''body { margin: 0 }''\<rparr>"

definition style_cached :: cache_storage where
  "style_cached = [(CACHE_NAME, [(url style_request, stored_style)])]"

definition script_response :: response where
  "script_response =
     \<lparr>status = 200, headers = [(''Content-Type'', ''text/javascript'')],
      body = Text ''class MarcacionApp {}''\<rparr>"

definition script_server :: "request \<Rightarrow> error + response" where
  "script_server = (\<lambda>request. Inr script_response)"

definition foreign_request :: request where
  "foreign_request =
     \<lparr>http_method = ''GET'',
      url = \<lparr>origin = ''https://unpkg.com'',
             pathname = ''/html5-qrcode/minified/html5-qrcode.min.js''\<rparr>,
      mode = ''no-cors'',
      accept = Some ''*/*'',
      request_body = None\<rparr>"

definition old_generation :: cache_storage where
  "old_generation =
     [(''hispe-pulse-v0.9.0'',
       [(\<lparr>origin = example_origin, pathname = ''/static/js/old.js''\<rparr>, script_response)]),
      (''hispe-offline-v0.9'',
       [(\<lparr>origin = example_origin, pathname = ''/offline''\<rparr>, stored_style)])]"

definition asset_server :: "url \<Rightarrow> error + response" where
  "asset_server = (\<lambda>u. Inr \<lparr>status = 200, headers = [], body = Text (pathname u)\<rparr>)"

text \<open>
  A day on which the entry is recorded. The user selects the exit card, which is
  available; before the code is scanned the page reloads the record, which now holds an
  exit time as well.
\<close>

definition dashboard :: "card list" where
  "dashboard = map blank_card marcation_types"

definition entered :: jsval where
  "entered = JObj [(''horaentrada'', JStr ''08:00'')]"


text \<open>
  The page as the end of a full day left it, with its four cards completed, and
  records in which the entry is missing.
\<close>

definition full_day :: jsval where
  "full_day =
     JObj [(''horaentrada'', JStr ''08:00''), (''horaRefrigerioInicio'', JStr ''12:00''),
           (''horaRefrigerioFin'', JStr ''13:00''), (''horasalida'', JStr ''17:00'')]"

definition stale_dashboard :: "card list" where
  "stale_dashboard = fst (updateMarcationCards full_day dashboard)"

definition break_without_entry :: jsval where
  "break_without_entry = JObj [(''horaRefrigerioInicio'', JStr ''12:00'')]"

definition break_and_exit_without_entry :: jsval where
  "break_and_exit_without_entry =
     JObj [(''horaRefrigerioInicio'', JStr ''12:00''), (''horasalida'', JStr ''17:00'')]"






section \<open>Rendering a card\<close>

lemmas render_defs =
  updateCard_def switch_type_def completed_def available_def disabled_def
  classList_remove_def classList_add_def classList_contains_def eligibility_of_def
  blank_card_def marcation_types_def Let_def

lemmas time_defs = entryTime_def breakStartTime_def breakEndTime_def exitTime_def

lemma truthy_field_not_nullish: "truthy (field a p) \<Longrightarrow> \<not> nullish a"
  by (auto simp: nullish_def field_def)

lemma forEach_update_no_error: "\<not> nullish a \<Longrightarrow> snd (forEach_update a cs) = None"
  by (induction cs) (auto simp: updateCard_def split: prod.splits option.splits)

lemma updateMarcationCards_no_error:
  "\<not> nullish a \<Longrightarrow> snd (updateMarcationCards a cs) = None"
  using forEach_update_no_error [of a cs]
  by (auto simp: updateMarcationCards_def split: prod.splits option.splits)

lemma evaluate_empty:
  "evaluate (JObj []) t = Inr (if t = Entry then Available else Blocked NoEntry)"
  by (cases t) (simp_all add: evaluate_def render_defs nullish_def field_def NoEntry_def)

lemma evaluate_all_unset:
  assumes "\<not> nullish a" "\<not> truthy (entryTime a)" "\<not> truthy (breakStartTime a)"
    "\<not> truthy (breakEndTime a)" "\<not> truthy (exitTime a)"
  shows "evaluate a t = Inr (if t = Entry then Available else Blocked NoEntry)"
  using assms by (cases t) (simp_all add: evaluate_def render_defs time_defs NoEntry_def)

lemma evaluate_returns: "\<not> nullish a \<Longrightarrow> \<exists>e. evaluate a t = Inr e"
  by (simp add: evaluate_def updateCard_def Let_def)

text \<open>What a card shows after the callback, when its state classes were cleared before.\<close>

lemma cleared_reset:
  "cleared (el\<lparr>classes :=
     classList_remove [''available'', ''completed'', ''disabled''] (classes el)\<rparr>)"
  by (simp add: cleared_def classList_remove_def)

lemma eligibility_completed: "eligibility_of (completed t el) = Completed t"
  by (simp add: eligibility_of_def completed_def classList_contains_def classList_add_def)

lemma eligibility_available:
  "cleared el \<Longrightarrow> eligibility_of (available el) = Available"
  by (simp add: eligibility_of_def available_def classList_contains_def classList_add_def
      cleared_def)

lemma eligibility_disabled:
  "cleared el \<Longrightarrow> eligibility_of (disabled msg el) = Blocked msg"
  by (simp add: eligibility_of_def disabled_def classList_contains_def classList_add_def
      cleared_def)

lemma eligibility_cleared: "cleared el \<Longrightarrow> eligibility_of el = Unrendered"
  by (simp add: eligibility_of_def classList_contains_def cleared_def)

lemma eligibility_switch_type:
  assumes "cleared el" "cleared el'" "card_type el = card_type el'"
  shows "eligibility_of (switch_type a el) = eligibility_of (switch_type a el')"
  using assms
  by (simp add: switch_type_def Let_def eligibility_completed eligibility_available
      eligibility_disabled eligibility_cleared)

text \<open>
  The eligibility a card shows after the callback depends on its type and on the
  record only, not on what the card showed before: \<open>evaluate\<close>, which starts from a
  blank card, gives the eligibility of every card of the page.
\<close>

lemma updateCard_eligibility:
  "eligibility_of (fst (updateCard a el)) =
   eligibility_of (fst (updateCard a (blank_card (card_type el))))"
proof -
  let ?reset = "\<lambda>x. x\<lparr>classes :=
     classList_remove [''available'', ''completed'', ''disabled''] (classes x)\<rparr>"
  have c1: "cleared (?reset el)" and c2: "cleared (?reset (blank_card (card_type el)))"
    by (rule cleared_reset)+
  have t: "card_type (?reset el) = card_type (?reset (blank_card (card_type el)))"
    by (simp add: blank_card_def)
  show ?thesis
  proof (cases "card_type el \<in> set marcation_types \<and> nullish a")
    case True
    then show ?thesis
      using c1 c2 by (simp add: updateCard_def Let_def eligibility_cleared blank_card_def)
  next
    case False
    then show ?thesis
      using eligibility_switch_type [OF c1 c2 t]
      by (auto simp add: updateCard_def Let_def blank_card_def)
  qed
qed



lemma forEach_update_result:
  "forEach_update att cs = (cs', None) \<Longrightarrow> cs' = map (\<lambda>el. fst (updateCard att el)) cs"
proof (induction cs arbitrary: cs')
  case Nil
  then show ?case by simp
next
  case (Cons el cs)
  then show ?case
    by (auto split: prod.splits option.splits)
qed

lemma eligibility_clickable_update:
  "eligibility_of (el\<lparr>clickable := b\<rparr>) = eligibility_of el"
  by (simp add: eligibility_of_def)


section \<open>Eligibility\<close>

text \<open>
  C1, as the code has it. The evaluation raises no exception on any record that is
  not \<^verbatim>\<open>null\<close> or \<^verbatim>\<open>undefined\<close>: the rendering of any list of cards ends without an
  error and every punch type gets a result. A record in which none of the four times
  is set, in particular an object that lacks the four fields or a value that is no
  object at all, gives the result of the empty record: Entry is Available and
  BreakStart, BreakEnd and Exit are Blocked(NoEntry).
\<close>

theorem evaluation_of_records:
  assumes "\<not> nullish a"
  shows "snd (updateMarcationCards a cs) = None \<and>
         (\<exists>e. evaluate a t = Inr e) \<and>
         (\<not> truthy (entryTime a) \<and> \<not> truthy (breakStartTime a) \<and>
          \<not> truthy (breakEndTime a) \<and> \<not> truthy (exitTime a) \<longrightarrow>
            evaluate a t = evaluate (JObj []) t \<and>
            evaluate (JObj []) t = Inr (if t = Entry then Available else Blocked NoEntry))"
  using assms updateMarcationCards_no_error [of a cs] evaluate_returns [of a t]
    evaluate_all_unset [of a t] evaluate_empty [of t]
  by simp

text \<open>A record that lacks the four fields, on the four cards of the page.\<close>

theorem evaluation_of_records_witness:
  "\<not> nullish (JObj [(''dni'', JStr ''12345678'')]) \<and>
   snd (updateMarcationCards (JObj [(''dni'', JStr ''12345678'')]) dashboard) = None \<and>
   \<not> truthy (entryTime (JObj [(''dni'', JStr ''12345678'')])) \<and>
   \<not> truthy (breakStartTime (JObj [(''dni'', JStr ''12345678'')])) \<and>
   \<not> truthy (breakEndTime (JObj [(''dni'', JStr ''12345678'')])) \<and>
   \<not> truthy (exitTime (JObj [(''dni'', JStr ''12345678'')])) \<and>
   evaluate (JObj [(''dni'', JStr ''12345678'')]) Exit = Inr (Blocked NoEntry)"
  using evaluation_of_records [of "JObj [(''dni'', JStr ''12345678'')]" dashboard Exit]
  by (simp add: nullish_def time_defs field_def)

text \<open>
  C1 as stated fails on the missing record: on \<^verbatim>\<open>null\<close> and on \<^verbatim>\<open>undefined\<close> the
  evaluation raises a TypeError at the first card of a known type instead of giving
  the result of the empty record.
\<close>

theorem null_record_raises:
  "evaluate JNull Entry = Inl TypeError \<and>
   evaluate JUndefined Entry = Inl TypeError \<and>
   snd (updateMarcationCards JNull dashboard) = Some TypeError"
  by (simp add: evaluate_def updateMarcationCards_def dashboard_def render_defs nullish_def)

text \<open>
  What the card at a position of the page shows after \<^verbatim>\<open>updateMarcationCards\<close>,
  whatever it showed before, is the evaluation of its punch type.
\<close>

lemma page_shows_evaluate:
  assumes "\<not> nullish a" "i < length cs" "card_type (cs ! i) = type_name t"
  shows "evaluate a t = Inr (eligibility_of (fst (updateMarcationCards a cs) ! i))"
proof -
  obtain cs' where cs': "updateMarcationCards a cs = (cs', None)"
    using updateMarcationCards_no_error [OF assms(1), of cs]
    by (cases "updateMarcationCards a cs") simp
  obtain mid where mid: "forEach_update a cs = (mid, None)" "cs' = reassignCardEvents mid"
    using cs' by (auto simp: updateMarcationCards_def split: prod.splits option.splits)
  have "mid = map (\<lambda>el. fst (updateCard a el)) cs"
    using forEach_update_result [OF mid(1)] .
  then have "cs' ! i = (fst (updateCard a (cs ! i)))
      \<lparr>clickable := classList_contains ''available'' (classes (fst (updateCard a (cs ! i))))\<rparr>"
    using assms(2) by (simp add: mid(2) reassignCardEvents_def)
  then have "eligibility_of (cs' ! i) = eligibility_of (fst (updateCard a (cs ! i)))"
    by (simp add: eligibility_clickable_update)
  also have "\<dots> = eligibility_of (fst (updateCard a (blank_card (type_name t))))"
    using updateCard_eligibility [of a "cs ! i"] assms(3) by simp
  finally have "eligibility_of (cs' ! i) =
      eligibility_of (fst (updateCard a (blank_card (type_name t))))" .
  moreover have "snd (updateCard a (blank_card (type_name t))) = None"
    using assms(1) by (simp add: updateCard_def Let_def)
  ultimately show ?thesis
    by (cases "updateCard a (blank_card (type_name t))") (simp add: evaluate_def cs')
qed

lemma evaluate_entry_unset:
  assumes "\<not> nullish a" "\<not> truthy (entryTime a)"
  shows "evaluate a Entry = Inr Available \<and>
         evaluate a BreakStart =
           Inr (if truthy (breakStartTime a) then Completed (breakStartTime a)
                else Blocked NoEntry) \<and>
         evaluate a BreakEnd =
           Inr (if truthy (breakEndTime a) then Completed (breakEndTime a)
                else if truthy (breakStartTime a) \<and> \<not> truthy (exitTime a) then Available
                else Blocked NoEntry) \<and>
         evaluate a Exit =
           Inr (if truthy (exitTime a) then Completed (exitTime a) else Blocked NoEntry)"
  using assms by (simp add: evaluate_def render_defs time_defs NoEntry_def)

lemma evaluate_entry_only:
  assumes "truthy (entryTime a)" "\<not> truthy (breakStartTime a)"
    "\<not> truthy (breakEndTime a)" "\<not> truthy (exitTime a)"
  shows "evaluate a Entry = Inr (Completed (entryTime a)) \<and>
         evaluate a BreakStart = Inr Available \<and>
         evaluate a Exit = Inr Available \<and>
         evaluate a BreakEnd = Inr (Blocked NoBreakStart)"
proof -
  have "\<not> nullish a"
    using assms(1) by (simp add: entryTime_def truthy_field_not_nullish)
  then show ?thesis
    using assms by (simp add: evaluate_def render_defs time_defs NoBreakStart_def)
qed

lemmas page_defs = dashboard_def stale_dashboard_def full_day_def entered_def
  break_without_entry_def break_and_exit_without_entry_def

text \<open>
  C5, as the code has it. For every record (an object, not \<^verbatim>\<open>null\<close> or
  \<^verbatim>\<open>undefined\<close>) in which the entry time is unset, and for every page of cards,
  whatever they showed before, \<^verbatim>\<open>updateMarcationCards\<close> raises nothing and leaves the
  cards as follows. The card of Entry is Available, and the card of a type whose own
  time is set is Completed with that time. Otherwise the cards of BreakStart and Exit
  are Blocked(NoEntry), and the card of BreakEnd is Available when the break start is
  set and the exit is unset and Blocked(NoEntry) in every other case.
\<close>

theorem entry_unset:
  assumes "\<not> nullish a" "\<not> truthy (entryTime a)" "i < length cs"
  shows "snd (updateMarcationCards a cs) = None \<and>
         (card_type (cs ! i) = type_name Entry \<longrightarrow>
            eligibility_of (fst (updateMarcationCards a cs) ! i) = Available) \<and>
         (card_type (cs ! i) = type_name BreakStart \<longrightarrow>
            eligibility_of (fst (updateMarcationCards a cs) ! i) =
              (if truthy (breakStartTime a) then Completed (breakStartTime a)
               else Blocked NoEntry)) \<and>
         (card_type (cs ! i) = type_name BreakEnd \<longrightarrow>
            eligibility_of (fst (updateMarcationCards a cs) ! i) =
              (if truthy (breakEndTime a) then Completed (breakEndTime a)
               else if truthy (breakStartTime a) \<and> \<not> truthy (exitTime a) then Available
               else Blocked NoEntry)) \<and>
         (card_type (cs ! i) = type_name Exit \<longrightarrow>
            eligibility_of (fst (updateMarcationCards a cs) ! i) =
              (if truthy (exitTime a) then Completed (exitTime a) else Blocked NoEntry))"
proof -
  note ev = evaluate_entry_unset [OF assms(1,2)]
  have "eligibility_of (fst (updateMarcationCards a cs) ! i) = Available"
    if "card_type (cs ! i) = type_name Entry"
    using page_shows_evaluate [OF assms(1,3) that] ev by simp
  moreover have "eligibility_of (fst (updateMarcationCards a cs) ! i) =
      (if truthy (breakStartTime a) then Completed (breakStartTime a) else Blocked NoEntry)"
    if "card_type (cs ! i) = type_name BreakStart"
    using page_shows_evaluate [OF assms(1,3) that] ev by simp
  moreover have "eligibility_of (fst (updateMarcationCards a cs) ! i) =
      (if truthy (breakEndTime a) then Completed (breakEndTime a)
       else if truthy (breakStartTime a) \<and> \<not> truthy (exitTime a) then Available
       else Blocked NoEntry)"
    if "card_type (cs ! i) = type_name BreakEnd"
    using page_shows_evaluate [OF assms(1,3) that] ev by simp
  moreover have "eligibility_of (fst (updateMarcationCards a cs) ! i) =
      (if truthy (exitTime a) then Completed (exitTime a) else Blocked NoEntry)"
    if "card_type (cs ! i) = type_name Exit"
    using page_shows_evaluate [OF assms(1,3) that] ev by simp
  ultimately show ?thesis
    using updateMarcationCards_no_error [OF assms(1), of cs] by blast
qed

text \<open>
  The page that the day before left with its four cards completed, rendered from the
  empty record of a new day and from a record with a break start and an exit but no
  entry.
\<close>

theorem entry_unset_witness:
  "map eligibility_of stale_dashboard =
     [Completed (JStr ''08:00''), Completed (JStr ''12:00''),
      Completed (JStr ''13:00''), Completed (JStr ''17:00'')] \<and>
   \<not> nullish (JObj []) \<and> \<not> truthy (entryTime (JObj [])) \<and>
   snd (updateMarcationCards (JObj []) stale_dashboard) = None \<and>
   eligibility_of (fst (updateMarcationCards (JObj []) stale_dashboard) ! 0) = Available \<and>
   eligibility_of (fst (updateMarcationCards (JObj []) stale_dashboard) ! 1) =
     Blocked NoEntry \<and>
   eligibility_of (fst (updateMarcationCards (JObj []) stale_dashboard) ! 2) =
     Blocked NoEntry \<and>
   eligibility_of (fst (updateMarcationCards (JObj []) stale_dashboard) ! 3) =
     Blocked NoEntry \<and>
   \<not> nullish break_and_exit_without_entry \<and>
   \<not> truthy (entryTime break_and_exit_without_entry) \<and>
   eligibility_of (fst (updateMarcationCards break_and_exit_without_entry stale_dashboard) ! 0) =
     Available \<and>
   eligibility_of (fst (updateMarcationCards break_and_exit_without_entry stale_dashboard) ! 1) =
     Completed (JStr ''12:00'') \<and>
   eligibility_of (fst (updateMarcationCards break_and_exit_without_entry stale_dashboard) ! 2) =
     Blocked NoEntry \<and>
   eligibility_of (fst (updateMarcationCards break_and_exit_without_entry stale_dashboard) ! 3) =
     Completed (JStr ''17:00'')"
proof -
  have stale: "map eligibility_of stale_dashboard =
     [Completed (JStr ''08:00''), Completed (JStr ''12:00''),
      Completed (JStr ''13:00''), Completed (JStr ''17:00'')]"
    by code_simp
  have len: "length stale_dashboard = 4"
    by code_simp
  have t: "card_type (stale_dashboard ! 0) = type_name Entry"
    "card_type (stale_dashboard ! 1) = type_name BreakStart"
    "card_type (stale_dashboard ! 2) = type_name BreakEnd"
    "card_type (stale_dashboard ! 3) = type_name Exit"
    by code_simp+
  have e: "\<not> nullish (JObj [])" "\<not> truthy (entryTime (JObj []))"
    "\<not> truthy (breakStartTime (JObj []))" "\<not> truthy (breakEndTime (JObj []))"
    "\<not> truthy (exitTime (JObj []))"
    by (simp_all add: nullish_def time_defs field_def)
  have b: "\<not> nullish break_and_exit_without_entry"
    "\<not> truthy (entryTime break_and_exit_without_entry)"
    "breakStartTime break_and_exit_without_entry = JStr ''12:00''"
    "\<not> truthy (breakEndTime break_and_exit_without_entry)"
    "exitTime break_and_exit_without_entry = JStr ''17:00''"
    by (simp_all add: break_and_exit_without_entry_def nullish_def time_defs field_def)
  show ?thesis
    using stale e b t len
      entry_unset [OF e(1,2), of 0 stale_dashboard]
      entry_unset [OF e(1,2), of 1 stale_dashboard]
      entry_unset [OF e(1,2), of 2 stale_dashboard]
      entry_unset [OF e(1,2), of 3 stale_dashboard]
      entry_unset [OF b(1,2), of 0 stale_dashboard]
      entry_unset [OF b(1,2), of 1 stale_dashboard]
      entry_unset [OF b(1,2), of 2 stale_dashboard]
      entry_unset [OF b(1,2), of 3 stale_dashboard]
    by simp
qed

text \<open>
  C5 as stated puts no restriction on the other three fields, and fails there: with
  the entry unset and a break start recorded, \<^verbatim>\<open>updateMarcationCards\<close> leaves the card
  of BreakStart Completed and the card of BreakEnd Available, not Blocked(NoEntry).
\<close>

theorem break_start_without_entry:
  "\<not> truthy (entryTime break_without_entry) \<and>
   snd (updateMarcationCards break_without_entry dashboard) = None \<and>
   map card_type (fst (updateMarcationCards break_without_entry dashboard)) =
     [type_name Entry, type_name BreakStart, type_name BreakEnd, type_name Exit] \<and>
   map eligibility_of (fst (updateMarcationCards break_without_entry dashboard)) =
     [Available, Completed (JStr ''12:00''), Available, Blocked NoEntry] \<and>
   map eligibility_of (fst (updateMarcationCards break_without_entry stale_dashboard)) =
     [Available, Completed (JStr ''12:00''), Available, Blocked NoEntry]"
  by code_simp

text \<open>
  C6. For every record in which the entry time is set and the break start, the break
  end and the exit are unset, and for every page of cards, whatever they showed
  before, \<^verbatim>\<open>updateMarcationCards\<close> raises nothing and leaves the card of Entry Completed
  with the stored entry time, the cards of BreakStart and Exit Available, and the card
  of BreakEnd Blocked(NoBreakStart).
\<close>

theorem entry_only:
  assumes "truthy (entryTime a)" "\<not> truthy (breakStartTime a)"
    "\<not> truthy (breakEndTime a)" "\<not> truthy (exitTime a)" "i < length cs"
  shows "snd (updateMarcationCards a cs) = None \<and>
         (card_type (cs ! i) = type_name Entry \<longrightarrow>
            eligibility_of (fst (updateMarcationCards a cs) ! i) = Completed (entryTime a)) \<and>
         (card_type (cs ! i) = type_name BreakStart \<longrightarrow>
            eligibility_of (fst (updateMarcationCards a cs) ! i) = Available) \<and>
         (card_type (cs ! i) = type_name Exit \<longrightarrow>
            eligibility_of (fst (updateMarcationCards a cs) ! i) = Available) \<and>
         (card_type (cs ! i) = type_name BreakEnd \<longrightarrow>
            eligibility_of (fst (updateMarcationCards a cs) ! i) = Blocked NoBreakStart)"
proof -
  have nn: "\<not> nullish a"
    using assms(1) by (simp add: entryTime_def truthy_field_not_nullish)
  note ev = evaluate_entry_only [OF assms(1-4)]
  have "eligibility_of (fst (updateMarcationCards a cs) ! i) = Completed (entryTime a)"
    if "card_type (cs ! i) = type_name Entry"
    using page_shows_evaluate [OF nn assms(5) that] ev by simp
  moreover have "eligibility_of (fst (updateMarcationCards a cs) ! i) = Available"
    if "card_type (cs ! i) = type_name BreakStart"
    using page_shows_evaluate [OF nn assms(5) that] ev by simp
  moreover have "eligibility_of (fst (updateMarcationCards a cs) ! i) = Available"
    if "card_type (cs ! i) = type_name Exit"
    using page_shows_evaluate [OF nn assms(5) that] ev by simp
  moreover have "eligibility_of (fst (updateMarcationCards a cs) ! i) = Blocked NoBreakStart"
    if "card_type (cs ! i) = type_name BreakEnd"
    using page_shows_evaluate [OF nn assms(5) that] ev by simp
  ultimately show ?thesis
    using updateMarcationCards_no_error [OF nn, of cs] by blast
qed

text \<open>
  The record with the entry at 08:00 and nothing else, on the page that the day before
  left with its four cards completed.
\<close>

theorem entry_only_witness:
  "map eligibility_of stale_dashboard =
     [Completed (JStr ''08:00''), Completed (JStr ''12:00''),
      Completed (JStr ''13:00''), Completed (JStr ''17:00'')] \<and>
   truthy (entryTime entered) \<and> \<not> truthy (breakStartTime entered) \<and>
   \<not> truthy (breakEndTime entered) \<and> \<not> truthy (exitTime entered) \<and>
   snd (updateMarcationCards entered stale_dashboard) = None \<and>
   eligibility_of (fst (updateMarcationCards entered stale_dashboard) ! 0) =
     Completed (JStr ''08:00'') \<and>
   eligibility_of (fst (updateMarcationCards entered stale_dashboard) ! 1) = Available \<and>
   eligibility_of (fst (updateMarcationCards entered stale_dashboard) ! 2) =
     Blocked NoBreakStart \<and>
   eligibility_of (fst (updateMarcationCards entered stale_dashboard) ! 3) = Available"
proof -
  have stale: "map eligibility_of stale_dashboard =
     [Completed (JStr ''08:00''), Completed (JStr ''12:00''),
      Completed (JStr ''13:00''), Completed (JStr ''17:00'')]"
    by code_simp
  have len: "length stale_dashboard = 4"
    by code_simp
  have t: "card_type (stale_dashboard ! 0) = type_name Entry"
    "card_type (stale_dashboard ! 1) = type_name BreakStart"
    "card_type (stale_dashboard ! 2) = type_name BreakEnd"
    "card_type (stale_dashboard ! 3) = type_name Exit"
    by code_simp+
  have h: "truthy (entryTime entered)" "\<not> truthy (breakStartTime entered)"
    "\<not> truthy (breakEndTime entered)" "\<not> truthy (exitTime entered)"
    "entryTime entered = JStr ''08:00''"
    by (simp_all add: entered_def time_defs field_def)
  show ?thesis
    using stale h t len
      entry_only [OF h(1-4), of 0 stale_dashboard]
      entry_only [OF h(1-4), of 1 stale_dashboard]
      entry_only [OF h(1-4), of 2 stale_dashboard]
      entry_only [OF h(1-4), of 3 stale_dashboard]
    by simp
qed

section \<open>The guard of a submission\<close>




section \<open>The cache storage\<close>

lemma map_of_cache_put: "map_of (cache_put k r c) k = Some r"
  by (induction c) auto

lemma map_of_on_cache:
  "map_of (on_cache name f caches) name = map_option f (map_of caches name)"
  by (induction caches) auto

lemma map_of_caches_open:
  "map_of (caches_open name caches) name =
   Some (case map_of caches name of None \<Rightarrow> [] | Some c \<Rightarrow> c)"
proof (cases "map_of caches name")
  case None
  then have "name \<notin> set (map fst caches)"
    by (simp add: map_of_eq_None_iff)
  with None show ?thesis
    by (simp add: caches_open_def map_add_def)
next
  case (Some c)
  then have "name \<in> set (map fst caches)"
    by (metis map_of_eq_None_iff option.distinct(1) set_map)
  with Some show ?thesis
    by (simp add: caches_open_def)
qed

lemma storage_put_stores:
  "\<exists>c. map_of (storage_put name k r caches) name = Some c \<and> map_of c k = Some r"
  by (simp add: storage_put_def map_of_on_cache map_of_caches_open map_of_cache_put)

lemmas example_defs = example_origin_def offline_network_def mark_post_def bad_json_post_def
  server_rejection_def rejecting_server_def style_request_def script_request_def
  stored_style_def style_cached_def script_response_def script_server_def
  foreign_request_def

section \<open>Cache first\<close>

text \<open>
  C7. When the cache storage holds an entry for the request, \<^verbatim>\<open>cacheFirst\<close> resolves
  to that entry and leaves the storage as it is, whatever the network does, so also
  when the network is down. On a miss it resolves to the response of the network, and
  it stores that response, in the current cache under the URL of the request, when
  the response is ok and does not touch the storage when it is not.
\<close>

theorem cacheFirst_hit_and_miss:
  "(caches_match caches (url request) = Some stored \<longrightarrow>
      cacheFirst fetch caches request = (Resolved stored, caches)) \<and>
   (caches_match caches (url request) = None \<and> fetch request = Inr r \<longrightarrow>
      fst (cacheFirst fetch caches request) = Resolved r \<and>
      (ok r \<longrightarrow>
         snd (cacheFirst fetch caches request) = storage_put CACHE_NAME (url request) r caches \<and>
         (\<exists>c. map_of (snd (cacheFirst fetch caches request)) CACHE_NAME = Some c \<and>
              map_of c (url request) = Some r)) \<and>
      (\<not> ok r \<longrightarrow> snd (cacheFirst fetch caches request) = caches))"
  using storage_put_stores [of CACHE_NAME "url request" r caches]
  by (simp add: cacheFirst_def)

text \<open>
  A stored style sheet with the network down; a script that is not stored and arrives
  with status 200; a style sheet that is not stored and arrives with status 400.
\<close>

theorem cacheFirst_hit_and_miss_witness:
  "caches_match style_cached (url style_request) = Some stored_style \<and>
   cacheFirst offline_network style_cached style_request = (Resolved stored_style, style_cached) \<and>
   caches_match style_cached (url script_request) = None \<and>
   script_server script_request = Inr script_response \<and> ok script_response \<and>
   fst (cacheFirst script_server style_cached script_request) = Resolved script_response \<and>
   snd (cacheFirst script_server style_cached script_request) =
     [(CACHE_NAME, [(url style_request, stored_style), (url script_request, script_response)])] \<and>
   caches_match [] (url style_request) = None \<and>
   rejecting_server style_request = Inr server_rejection \<and> \<not> ok server_rejection \<and>
   cacheFirst rejecting_server [] style_request = (Resolved server_rejection, [])"
  using cacheFirst_hit_and_miss [of style_cached style_request stored_style offline_network
      script_response]
    cacheFirst_hit_and_miss [of style_cached script_request stored_style script_server
      script_response]
    cacheFirst_hit_and_miss [of "[]" style_request stored_style rejecting_server
      server_rejection]
  by (simp add: example_defs ok_def storage_put_def caches_open_def prod_eq_iff)

section \<open>Submissions through the worker\<close>

lemma pending_fields:
  "field pending_json ''success'' = JBool True \<and>
   field pending_json ''offline'' = JBool True \<and>
   field pending_json ''pending'' = JBool True \<and>
   field pending_json ''accepted'' = JUndefined"
  by (simp add: pending_json_def field_def)

text \<open>
  The \<^verbatim>\<open>catch\<close> block of \<^verbatim>\<open>handleOfflineMarking\<close> is reached with a rejected fetch
  and with every answer of the server that is not ok. It never gets to its response:
  the clone of a request with a body throws, and a request without a body has no JSON
  to parse.
\<close>

lemma catch_block_rejects:
  "\<exists>e. (case clone_after_fetch request of
          Inl e \<Rightarrow> (Rejected e, caches)
        | Inr requestClone \<Rightarrow>
            (case request_json requestClone of
               Inl e \<Rightarrow> (Rejected e, caches)
             | Inr parsed \<Rightarrow> (Resolved pending_response, caches))) = (Rejected e, caches)"
  by (cases "request_body request")
    (simp_all add: clone_after_fetch_def bodyUsed_after_fetch_def request_json_def)

lemma handleOfflineMarking_fetch_failed:
  "fetch request = Inl e \<Longrightarrow>
   \<exists>e'. handleOfflineMarking fetch caches request = (Rejected e', caches)"
  using catch_block_rejects [where request = request and caches = caches]
  by (simp add: handleOfflineMarking_def)

lemma handleOfflineMarking_not_ok:
  "fetch request = Inr response \<Longrightarrow> \<not> ok response \<Longrightarrow>
   \<exists>e'. handleOfflineMarking fetch caches request = (Rejected e', caches)"
  using catch_block_rejects [where request = request and caches = caches]
  by (simp add: handleOfflineMarking_def)

lemma other_strategies_settle:
  "s \<noteq> HandleOfflineMarking \<Longrightarrow> fst (run_strategy s loc fetch caches request) \<noteq> Rejected e"
  by (cases s)
    (auto simp: networkOnlyWithFallback_def cacheFirstWithNetworkFallback_def
      networkFirstWithCacheFallback_def cacheFirst_def Let_def
      split: option.splits sum.splits)

lemmas marking_defs = router_def fetch_listener_def handleOfflineMarking_def
  clone_after_fetch_def bodyUsed_after_fetch_def request_json_def

text \<open>
  C2 at a failing input. A submission of an entry, a POST to the submission endpoint
  with the JSON body the page sends, while the network is down: the listener hands it
  to \<^verbatim>\<open>handleOfflineMarking\<close>, the fetch rejects, and in the \<^verbatim>\<open>catch\<close> block the clone of
  the used request throws. The promise rejects and the caller gets a network error,
  not the response with status 202 that the block goes on to build.
\<close>

theorem offline_marking_rejects:
  "offline_network mark_post = Inl FetchFailed \<and>
   fetch_listener example_origin mark_post = RespondWith HandleOfflineMarking \<and>
   handleOfflineMarking offline_network [] mark_post = (Rejected TypeError, []) \<and>
   router example_origin offline_network [] mark_post = (Inl TypeError, [])"
  by (simp add: marking_defs mark_post_def offline_network_def)

text \<open>
  C3 at a failing input. The server answers a submission with status 400 and the
  body \<^verbatim>\<open>{error: ...}\<close>. The handler does not return that answer: it throws on it as
  on a failed fetch, the \<^verbatim>\<open>catch\<close> block fails on the clone, and the caller gets a
  network error in place of the answer of the server.
\<close>

theorem server_rejection_not_forwarded:
  "rejecting_server mark_post = Inr server_rejection \<and>
   \<not> ok server_rejection \<and>
   body server_rejection = Json (JObj [(''error'', JStr ''QR no valido'')]) \<and>
   fetch_listener example_origin mark_post = RespondWith HandleOfflineMarking \<and>
   handleOfflineMarking rejecting_server [] mark_post = (Rejected TypeError, []) \<and>
   router example_origin rejecting_server [] mark_post = (Inl TypeError, []) \<and>
   fst (router example_origin rejecting_server [] mark_post) \<noteq> Inr server_rejection"
  by (simp add: marking_defs mark_post_def rejecting_server_def server_rejection_def ok_def)

text \<open>
  C4 at a failing input. A POST to the submission endpoint whose body is not JSON,
  with the network down: the listener hands it to \<^verbatim>\<open>handleOfflineMarking\<close>, whose
  promise rejects in the \<^verbatim>\<open>catch\<close> block, and the caller gets a network error instead
  of a response.
\<close>

theorem bad_json_rejects:
  "fetch_listener example_origin bad_json_post = RespondWith HandleOfflineMarking \<and>
   handleOfflineMarking offline_network [] bad_json_post = (Rejected TypeError, []) \<and>
   router example_origin offline_network [] bad_json_post = (Inl TypeError, [])"
  by (simp add: marking_defs mark_post_def bad_json_post_def offline_network_def)

section \<open>Requests to another origin\<close>

text \<open>
  C10. For every request whose URL has another origin than the worker, the listener
  returns without \<^verbatim>\<open>respondWith\<close>: no strategy runs, the caller gets what the network
  gives for that request, and the cache storage is unchanged.
\<close>

theorem foreign_origin_passes_through:
  assumes "origin (url request) \<noteq> location_origin"
  shows "fetch_listener location_origin request = NotHandled \<and>
         router location_origin fetch caches request = (fetch request, caches)"
  using assms by (simp add: router_def fetch_listener_def)

text \<open>The scanner library, which comes from another host.\<close>

theorem foreign_origin_passes_through_witness:
  "origin (url foreign_request) \<noteq> example_origin \<and>
   fetch_listener example_origin foreign_request = NotHandled \<and>
   router example_origin script_server style_cached foreign_request =
     (Inr script_response, style_cached)"
  using foreign_origin_passes_through [of foreign_request example_origin script_server
      style_cached]
  by (simp add: foreign_request_def example_origin_def script_server_def)

section \<open>Installation and activation\<close>

lemma fold_delete_filter:
  "fold (\<lambda>cacheName cs. if P cacheName then caches_delete cacheName cs else cs) ns caches =
   filter (\<lambda>(n, c). \<not> (n \<in> set ns \<and> P n)) caches"
proof (induction ns arbitrary: caches)
  case Nil
  then show ?case by simp
next
  case (Cons n ns)
  show ?case
    by (auto simp: Cons.IH caches_delete_def intro!: filter_cong)
qed

lemma activate_filter:
  "activate caches = filter (\<lambda>(n, c). n = CACHE_NAME \<or> n = OFFLINE_CACHE) caches"
  unfolding activate_def fold_delete_filter
  by (rule filter_cong) (auto simp: rev_image_eqI)

lemma activate_names: "set (map fst (activate caches)) \<subseteq> {CACHE_NAME, OFFLINE_CACHE}"
  by (auto simp: activate_filter)

lemma fetch_all_ok:
  "\<forall>u \<in> set us. \<exists>r. fetch_url u = Inr r \<and> ok r \<Longrightarrow>
   \<exists>rs. fetch_all fetch_url us = Inr rs \<and> map fst rs = us \<and>
        (\<forall>(u, r) \<in> set rs. fetch_url u = Inr r \<and> ok r)"
proof (induction us)
  case Nil
  then show ?case by simp
next
  case (Cons u us)
  then obtain rs where rs: "fetch_all fetch_url us = Inr rs" "map fst rs = us"
    "\<forall>(u, r) \<in> set rs. fetch_url u = Inr r \<and> ok r"
    by auto
  from Cons.prems obtain r where r: "fetch_url u = Inr r" "ok r"
    by auto
  show ?case
    using rs r by simp
qed

lemma cache_put_fresh: "k \<notin> set (map fst c) \<Longrightarrow> cache_put k r c = c @ [(k, r)]"
  by (induction c) auto

lemma put_all_distinct:
  "distinct (map fst rs) \<Longrightarrow> set (map fst c) \<inter> set (map fst rs) = {} \<Longrightarrow>
   put_all rs c = c @ rs"
proof (induction rs arbitrary: c)
  case Nil
  then show ?case by (simp add: put_all_def)
next
  case (Cons x rs)
  obtain k r where x: "x = (k, r)" by (cases x)
  have fresh: "k \<notin> set (map fst c)"
    using Cons.prems(2) x by auto
  have "put_all (x # rs) c = put_all rs (cache_put k r c)"
    by (simp add: put_all_def x)
  also have "\<dots> = put_all rs (c @ [(k, r)])"
    by (simp add: cache_put_fresh [OF fresh])
  also have "\<dots> = (c @ [(k, r)]) @ rs"
    using Cons.prems x by (intro Cons.IH) auto
  finally show ?case by (simp add: x)
qed

lemma on_cache_append:
  "name \<notin> set (map fst caches) \<Longrightarrow>
   on_cache name f (caches @ [(name, c)]) = caches @ [(name, f c)]"
  by (induction caches) auto

lemma distinct_essential_urls: "distinct (essential_urls loc)"
  by (simp add: essential_urls_def ESSENTIAL_FILES_def resolve_url_def)

lemma names_differ: "CACHE_NAME \<noteq> OFFLINE_CACHE"
  by (simp add: CACHE_NAME_def OFFLINE_CACHE_def)

lemma install_fresh:
  assumes "CACHE_NAME \<notin> set (map fst caches)" "OFFLINE_CACHE \<notin> set (map fst caches)"
    and "fetch_all fetch_url (essential_urls loc) = Inr rs"
    and "map fst rs = essential_urls loc"
  shows "install loc fetch_url caches =
     (caches @ [(CACHE_NAME, rs), (OFFLINE_CACHE, [(resolve_url loc ''/offline'', offline_page)])],
      None)"
proof -
  have 1: "caches_open CACHE_NAME caches = caches @ [(CACHE_NAME, [])]"
    using assms(1) by (simp add: caches_open_def)
  have 2: "put_all rs [] = rs"
    using put_all_distinct [of rs "[]"] assms(4) distinct_essential_urls [of loc] by simp
  have 3: "on_cache CACHE_NAME (put_all rs) (caches @ [(CACHE_NAME, [])]) =
      caches @ [(CACHE_NAME, rs)]"
    using on_cache_append [OF assms(1), of "put_all rs" "[]"] 2 by simp
  have 4: "OFFLINE_CACHE \<notin> set (map fst (caches @ [(CACHE_NAME, rs)]))"
    using assms(2) names_differ by auto
  have 5: "storage_put OFFLINE_CACHE k r (caches @ [(CACHE_NAME, rs)]) =
      caches @ [(CACHE_NAME, rs), (OFFLINE_CACHE, [(k, r)])]" for k r
    using 4 on_cache_append [OF 4, of "cache_put k r" "[]"]
    by (simp add: storage_put_def caches_open_def)
  show ?thesis
    by (simp add: install_def Let_def assms(3) 1 3 5)
qed

text \<open>
  C8. The activation deletes every cache whose name is neither of the two current
  names, whatever the storage held before. After a version bump, that is when no
  cache of the storage has a current name yet, and an installation that got every
  essential file with an ok status, the installation succeeds and the activation
  leaves exactly two caches: the current one, whose entries are the responses fetched
  for the essential files, in the order of the list, and the offline one, whose only
  entry is the synthesized offline page.
\<close>

theorem activation_leaves_current_generation:
  assumes "CACHE_NAME \<notin> set (map fst caches)" "OFFLINE_CACHE \<notin> set (map fst caches)"
    and "\<forall>u \<in> set (essential_urls loc). \<exists>r. fetch_url u = Inr r \<and> ok r"
  shows "set (map fst (activate previous)) \<subseteq> {CACHE_NAME, OFFLINE_CACHE} \<and>
         (\<exists>entries.
            snd (install loc fetch_url caches) = None \<and>
            activate (fst (install loc fetch_url caches)) =
              [(CACHE_NAME, entries),
               (OFFLINE_CACHE, [(resolve_url loc ''/offline'', offline_page)])] \<and>
            map fst entries = essential_urls loc \<and>
            (\<forall>(u, r) \<in> set entries. fetch_url u = Inr r \<and> ok r))"
proof -
  from fetch_all_ok [OF assms(3)] obtain rs where
    rs: "fetch_all fetch_url (essential_urls loc) = Inr rs" "map fst rs = essential_urls loc"
      "\<forall>(u, r) \<in> set rs. fetch_url u = Inr r \<and> ok r"
    by blast
  have inst: "install loc fetch_url caches =
     (caches @ [(CACHE_NAME, rs), (OFFLINE_CACHE, [(resolve_url loc ''/offline'', offline_page)])],
      None)"
    using install_fresh [OF assms(1,2) rs(1,2)] .
  have old: "filter (\<lambda>(n, c). n = CACHE_NAME \<or> n = OFFLINE_CACHE) caches = []"
    using assms(1,2) by (auto simp: filter_empty_conv image_iff)
  have act: "activate (fst (install loc fetch_url caches)) =
     [(CACHE_NAME, rs), (OFFLINE_CACHE, [(resolve_url loc ''/offline'', offline_page)])]"
    by (simp add: inst activate_filter old)
  show ?thesis
    using activate_names [of previous] inst act rs(2,3) by auto
qed

text \<open>
  A storage that holds the two caches of the previous version, and a server that has
  every essential file.
\<close>

theorem activation_leaves_current_generation_witness:
  "CACHE_NAME \<notin> set (map fst old_generation) \<and>
   OFFLINE_CACHE \<notin> set (map fst old_generation) \<and>
   set (map fst (activate old_generation)) \<subseteq> {CACHE_NAME, OFFLINE_CACHE} \<and>
   snd (install example_origin asset_server old_generation) = None \<and>
   map fst (activate (fst (install example_origin asset_server old_generation))) =
     [CACHE_NAME, OFFLINE_CACHE] \<and>
   map (map fst \<circ> snd) (activate (fst (install example_origin asset_server old_generation))) =
     [essential_urls example_origin, [resolve_url example_origin ''/offline'']]"
proof -
  have 1: "CACHE_NAME \<notin> set (map fst old_generation)"
    and 2: "OFFLINE_CACHE \<notin> set (map fst old_generation)"
    by (simp_all add: old_generation_def CACHE_NAME_def OFFLINE_CACHE_def)
  have 3: "\<forall>u \<in> set (essential_urls example_origin). \<exists>r. asset_server u = Inr r \<and> ok r"
    by (simp add: asset_server_def ok_def)
  show ?thesis
    using 1 2 activation_leaves_current_generation [OF 1 2 3, of old_generation]
    by auto
qed

end
